theory Spec2Isabelle
  imports Main "HOL-Library.Sublist"
begin

section \<open>JavaScript strings and values\<close>

text \<open>
  A JavaScript string is a sequence of UTF-16 code units, and every index, length and
  substring in the source counts code units. Strings are therefore lists of code units,
  each a number below 65536. \<open>str\<close> turns a literal of the source, all of which are
  ASCII, into such a string.
\<close>

type_synonym code_unit = nat

type_synonym js_string = "code_unit list"

definition str :: "string \<Rightarrow> js_string" where
  "str s = map of_char s"

abbreviation (input) NL :: js_string where
  "NL \<equiv> [10]"

text \<open>
  The string operations the handlers call: \<^verbatim>\<open>String.prototype.includes\<close>,
  \<^verbatim>\<open>Array.prototype.join\<close>, the decimal rendering of an array index inside a template
  literal, and (Hugging Face server only) \<^verbatim>\<open>lastIndexOf\<close>, \<^verbatim>\<open>substring\<close> and \<^verbatim>\<open>trim\<close>.
  \<^verbatim>\<open>substring(n)\<close> is \<open>drop n\<close>.
\<close>

fun js_includes :: "js_string \<Rightarrow> js_string \<Rightarrow> bool" where
  "js_includes [] sub = (sub = [])"
| "js_includes (c # cs) sub = (prefix sub (c # cs) \<or> js_includes cs sub)"

fun js_join :: "js_string \<Rightarrow> js_string list \<Rightarrow> js_string" where
  "js_join sep [] = []"
| "js_join sep [x] = x"
| "js_join sep (x # y # ys) = x @ sep @ js_join sep (y # ys)"

fun string_of_nat :: "nat \<Rightarrow> js_string" where
  "string_of_nat n =
     (if n < 10 then [48 + n] else string_of_nat (n div 10) @ [48 + n mod 10])"

declare string_of_nat.simps [simp del]

fun lastIndexOf :: "js_string \<Rightarrow> js_string \<Rightarrow> nat option" where
  "lastIndexOf [] sub = (if sub = [] then Some 0 else None)"
| "lastIndexOf (c # cs) sub =
     (case lastIndexOf cs sub of
        Some i \<Rightarrow> Some (Suc i)
      | None \<Rightarrow> if prefix sub (c # cs) then Some 0 else None)"

text \<open>
  \<^verbatim>\<open>trim\<close> removes the white space and line terminators of ECMAScript from both ends:
  TAB, LF, VT, FF, CR, SPACE, NO-BREAK SPACE, U+1680, U+2000 to U+200A, U+2028, U+2029,
  U+202F, U+205F, U+3000 and U+FEFF. Each is a single code unit.
\<close>

definition is_space :: "code_unit \<Rightarrow> bool" where
  "is_space c =
     (c \<in> {0x09, 0x0A, 0x0B, 0x0C, 0x0D, 0x20, 0xA0, 0x1680, 0x2028, 0x2029, 0x202F, 0x205F,
            0x3000, 0xFEFF}
      \<or> (0x2000 \<le> c \<and> c \<le> 0x200A))"

definition trim :: "js_string \<Rightarrow> js_string" where
  "trim s = rev (dropWhile is_space (rev (dropWhile is_space s)))"

text \<open>
  \<^verbatim>\<open>String.prototype.toLowerCase\<close> follows the Unicode case tables of the JavaScript
  engine, which may change the number of code units. It is a parameter of the model
  (\<open>to_lower_case\<close> below). On a string of ASCII code units it is \<open>ascii_to_lower\<close>.
\<close>

definition ascii_to_lower :: "js_string \<Rightarrow> js_string" where
  "ascii_to_lower s = map (\<lambda>c. if 65 \<le> c \<and> c \<le> 90 then c + 32 else c) s"

text \<open>
  JSON values, as sent in response bodies and queue payloads, and as received from the
  vector store (chunk metadata) and from the generation backend (its reply).
\<close>

datatype json =
    JNull
  | JBool bool
  | JNum int
  | JStr js_string
  | JArr "json list"
  | JObj "(js_string \<times> json) list"

text \<open>
  A thrown value. \<^verbatim>\<open>error.message\<close> is \<open>None\<close> when the thrown value has no such
  property; the handlers read it through \<^verbatim>\<open>error.message?.includes(...)\<close>, which is
  falsy in that case. A message that is present is a string, as it is for the \<^verbatim>\<open>Error\<close>
  objects the libraries throw.
\<close>

record js_error =
  message :: "js_string option"

definition message_includes :: "js_error \<Rightarrow> js_string \<Rightarrow> bool" where
  "message_includes e sub = (case message e of None \<Rightarrow> False | Some m \<Rightarrow> js_includes m sub)"

text \<open>\<^verbatim>\<open>JSON.stringify\<close> drops a property whose value is \<^verbatim>\<open>undefined\<close>.\<close>

definition optional_field :: "js_string \<Rightarrow> js_string option \<Rightarrow> (js_string \<times> json) list" where
  "optional_field k v = (case v of None \<Rightarrow> [] | Some s \<Rightarrow> [(k, JStr s)])"

record response =
  status :: nat
  body :: json

text \<open>\<^verbatim>\<open>res.json(b)\<close> answers with status 200; \<^verbatim>\<open>res.status(n).json(b)\<close> with \<open>n\<close>.\<close>

definition res_json :: "json \<Rightarrow> response" where
  "res_json b = \<lparr>status = 200, body = b\<rparr>"

definition res_status_json :: "nat \<Rightarrow> json \<Rightarrow> response" where
  "res_status_json n b = \<lparr>status = n, body = b\<rparr>"

section \<open>External collaborators\<close>

text \<open>
  A retrieved or loaded document: LangChain's \<^verbatim>\<open>Document\<close> with its text and its
  metadata object (for PDF chunks: \<^verbatim>\<open>{loc: {pageNumber}, source, ...}\<close>).
\<close>

record doc =
  pageContent :: js_string
  metadata :: json

type_synonym env = "js_string \<rightharpoonup> js_string"

record embeddings_config =
  apiKey :: "js_string option"
  model :: js_string

record store_config =
  url :: js_string
  collectionName :: js_string

record splitter_params =
  chunkSize :: nat
  chunkOverlap :: nat

text \<open>
  What \<^verbatim>\<open>llm.invoke\<close> receives: a list of role/content messages (Gemini server) or one
  prompt string (Hugging Face and Ollama servers).
\<close>

datatype llm_input =
    Messages "(js_string \<times> js_string) list"
  | Prompt js_string

text \<open>
  Every call that leaves the process is recorded as an event, in call order. A call is
  recorded whether it returns or throws.
\<close>

datatype event =
    NewEmbeddings embeddings_config
  | FromExistingCollection store_config
  | RetrieverInvoke nat js_string
  | LlmInvoke llm_input
  | QueueAdd js_string json
  | LoaderLoad "json option"
  | SplitDocuments splitter_params "doc list"
  | AddDocuments "doc list"

text \<open>
  The libraries and services behind the handlers, and the engine's \<^verbatim>\<open>toLowerCase\<close>. Each
  library call either returns or throws. A handler calls each of them at most once per
  request, so a function of the arguments is as general as a stateful service here.
\<close>

record externals =
  new_embeddings :: "embeddings_config \<Rightarrow> js_error + unit"
  from_existing_collection :: "store_config \<Rightarrow> js_error + unit"
  retriever_invoke :: "nat \<Rightarrow> js_string \<Rightarrow> js_error + doc list"
  llm_invoke :: "llm_input \<Rightarrow> js_error + json"
  queue_add :: "js_string \<Rightarrow> json \<Rightarrow> js_error + unit"
  loader_load :: "json option \<Rightarrow> js_error + doc list"
  split_documents :: "splitter_params \<Rightarrow> doc list \<Rightarrow> js_error + doc list"
  add_documents :: "doc list \<Rightarrow> js_error + unit"
  to_lower_case :: "js_string \<Rightarrow> js_string"

section \<open>The three servers\<close>

text \<open>
  \<^verbatim>\<open>server/index.js\<close> (Google Gemini), and the Hugging Face and Ollama servers. They share
  the upload handler and the retrieval steps of the chat handler and differ in what they
  hand to the generation backend, in the success body and in the error mapping.
\<close>

datatype variant = Gemini | HuggingFace | Ollama

definition model_name :: "variant \<Rightarrow> js_string" where
  "model_name v =
     (case v of
        Gemini \<Rightarrow> str ''gemini-1.5-flash''
      | HuggingFace \<Rightarrow> str ''microsoft/DialoGPT-large''
      | Ollama \<Rightarrow> str ''llama3.1'')"

subsection \<open>POST /upload/pdf\<close>

text \<open>
  \<^verbatim>\<open>req.file\<close> as multer leaves it: absent when the request carried no \<^verbatim>\<open>pdf\<close> field, in
  which case reading \<^verbatim>\<open>req.file.originalname\<close> throws inside the \<^verbatim>\<open>try\<close> block, before
  \<^verbatim>\<open>queue.add\<close> is reached. The queue payload is the JSON text of the object below; the
  serialisation itself is not modelled.
\<close>

record uploaded_file =
  originalname :: js_string
  destination :: js_string
  path :: js_string

definition upload_job :: "uploaded_file \<Rightarrow> json" where
  "upload_job f =
     JObj [(str ''filename'', JStr (originalname f)),
           (str ''destination'', JStr (destination f)),
           (str ''path'', JStr (path f))]"

definition upload_failed :: response where
  "upload_failed =
     res_status_json 500 (JObj [(str ''error'', JStr (str ''Failed to upload file''))])"

definition upload_pdf :: "externals \<Rightarrow> uploaded_file option \<Rightarrow> response \<times> event list" where
  "upload_pdf ext file =
     (case file of
        None \<Rightarrow> (upload_failed, [])
      | Some f \<Rightarrow>
          (case queue_add ext (str ''file-ready'') (upload_job f) of
             Inl e \<Rightarrow> (upload_failed, [QueueAdd (str ''file-ready'') (upload_job f)])
           | Inr u \<Rightarrow>
               (res_json (JObj [(str ''message'', JStr (str ''PDF uploaded successfully''))]),
                [QueueAdd (str ''file-ready'') (upload_job f)])))"

subsection \<open>GET /chat\<close>

definition embeddings_cfg :: "env \<Rightarrow> embeddings_config" where
  "embeddings_cfg en =
     \<lparr>apiKey = en (str ''GOOGLE_API_KEY''), model = str ''text-embedding-004''\<rparr>"

definition store_cfg :: store_config where
  "store_cfg =
     \<lparr>url = str ''http://localhost:6333'', collectionName = str ''langchainjs-testing''\<rparr>"

text \<open>The \<^verbatim>\<open>k\<close> passed to \<^verbatim>\<open>vectorStore.asRetriever\<close>: the literal 3 in each server.\<close>

definition retriever_k :: "variant \<Rightarrow> env \<Rightarrow> nat" where
  "retriever_k v en = 3"

text \<open>
  \<^verbatim>\<open>relevantDocs.map((doc, index) => `Document ${index + 1}:\n${doc.pageContent}`)
  .join("\n\n---\n\n")\<close>
\<close>

definition doc_label :: "nat \<times> doc \<Rightarrow> js_string" where
  "doc_label p =
     str ''Document '' @ string_of_nat (fst p + 1) @ str '':'' @ NL @ pageContent (snd p)"

definition context_sep :: js_string where
  "context_sep = NL @ NL @ str ''---'' @ NL @ NL"

definition context_of :: "doc list \<Rightarrow> js_string" where
  "context_of docs = js_join context_sep (map doc_label (enumerate 0 docs))"

definition gemini_system_prompt :: "js_string \<Rightarrow> js_string" where
  "gemini_system_prompt ctx =
     str ''You are a helpful AI assistant that answers questions based on PDF document content.'' @ NL @
     NL @
     str ''Instructions:'' @ NL @
     str ''- Answer the user's question using ONLY the provided context from the PDF documents'' @ NL @
     str ''- If the answer is not in the context, clearly state that the information is not available in the provided documents'' @ NL @
     str ''- Be concise but comprehensive in your responses'' @ NL @
     str ''- Maintain a professional and helpful tone'' @ NL @
     NL @
     str ''Context from PDF documents:'' @ NL @
     ctx"

definition hf_prompt :: "js_string \<Rightarrow> js_string \<Rightarrow> js_string" where
  "hf_prompt ctx userQuery =
     str ''You are a helpful AI assistant that answers questions based on PDF document content.'' @ NL @
     NL @
     str ''Context from PDF documents:'' @ NL @
     ctx @ NL @
     NL @
     str ''Question: '' @ userQuery @ NL @
     NL @
     str ''Instructions:'' @ NL @
     str ''- Answer the question using ONLY the provided context from the PDF documents'' @ NL @
     str ''- If the answer is not in the context, clearly state that the information is not available'' @ NL @
     str ''- Be concise but comprehensive in your response'' @ NL @
     str ''- Maintain a professional and helpful tone'' @ NL @
     NL @
     str ''Answer:''"

definition ollama_system_prompt :: "js_string \<Rightarrow> js_string" where
  "ollama_system_prompt ctx =
     str ''You are a helpful AI assistant that answers questions based on PDF document content.'' @ NL @
     str ''Instructions:'' @ NL @
     str ''- Answer the user's question using ONLY the provided context from the PDF documents'' @ NL @
     str ''- If the answer is not in the context, clearly state that the information is not available in the provided documents'' @ NL @
     str ''- Be concise but comprehensive in your responses'' @ NL @
     str ''- Maintain a professional and helpful tone'' @ NL @
     NL @
     str ''Context from PDF documents:'' @ NL @
     ctx"

text \<open>The argument of \<^verbatim>\<open>llm.invoke\<close> in each server.\<close>

definition llm_input_of :: "variant \<Rightarrow> js_string \<Rightarrow> doc list \<Rightarrow> llm_input" where
  "llm_input_of v userQuery docs =
     (case v of
        Gemini \<Rightarrow>
          Messages [(str ''system'', gemini_system_prompt (context_of docs)),
                    (str ''user'', userQuery)]
      | HuggingFace \<Rightarrow> Prompt (hf_prompt (context_of docs) userQuery)
      | Ollama \<Rightarrow> Prompt (ollama_system_prompt (context_of docs)))"

text \<open>
  The Hugging Face server strips an echoed prompt: when the reply is a string whose
  lower-cased form contains \<^verbatim>\<open>answer:\<close>, it takes the index of the last occurrence there and
  keeps what follows that index plus 7 in the reply itself, trimmed. \<open>lower\<close> is the
  engine's \<^verbatim>\<open>toLowerCase\<close>.
\<close>

definition clean_response :: "(js_string \<Rightarrow> js_string) \<Rightarrow> json \<Rightarrow> json" where
  "clean_response lower r =
     (case r of
        JStr s \<Rightarrow>
          (case lastIndexOf (lower s) (str ''answer:'') of
             None \<Rightarrow> JStr s
           | Some i \<Rightarrow> JStr (trim (drop (i + 7) s)))
      | _ \<Rightarrow> r)"

definition doc_json :: "doc \<Rightarrow> json" where
  "doc_json d = JObj [(str ''pageContent'', JStr (pageContent d)), (str ''metadata'', metadata d)]"

text \<open>The body of the final \<^verbatim>\<open>res.json\<close> in each server.\<close>

definition chat_success_body ::
  "variant \<Rightarrow> (js_string \<Rightarrow> js_string) \<Rightarrow> json \<Rightarrow> doc list \<Rightarrow> json" where
  "chat_success_body v lower reply docs =
     (case v of
        Gemini \<Rightarrow>
          JObj [(str ''message'', reply),
                (str ''sources'', JNum (int (length docs))),
                (str ''model'', JStr (model_name Gemini))]
      | HuggingFace \<Rightarrow>
          JObj [(str ''message'', clean_response lower reply),
                (str ''sources'', JNum (int (length docs))),
                (str ''model'', JStr (model_name HuggingFace)),
                (str ''docs'', JArr (map doc_json docs))]
      | Ollama \<Rightarrow>
          JObj [(str ''message'', reply),
                (str ''sources'', JNum (int (length docs))),
                (str ''model'', JStr (model_name Ollama)),
                (str ''docs'', JArr (map doc_json docs))])"

text \<open>The \<^verbatim>\<open>catch\<close> block of each chat handler: first matching test wins.\<close>

definition internal_error :: "js_error \<Rightarrow> response" where
  "internal_error e =
     res_status_json 500
       (JObj ((str ''error'', JStr (str ''Failed to process chat request'')) #
              optional_field (str ''details'') (message e)))"

definition chat_catch :: "variant \<Rightarrow> js_error \<Rightarrow> response" where
  "chat_catch v e =
     (case v of
        Gemini \<Rightarrow>
          if message_includes e (str ''quota'') then
            res_status_json 429
              (JObj [(str ''error'', JStr (str ''API quota exceeded. Please try again later.''))])
          else if message_includes e (str ''API key'') then
            res_status_json 401
              (JObj [(str ''error'',
                        JStr (str ''Invalid API key. Please check your Google API key.''))])
          else internal_error e
      | HuggingFace \<Rightarrow>
          if message_includes e (str ''rate limit'') \<or> message_includes e (str ''quota'') then
            res_status_json 429
              (JObj [(str ''error'',
                        JStr (str ''Hugging Face API rate limit exceeded. Please try again later.'')),
                     (str ''details'', JStr (str ''Free tier has limited requests per hour''))])
          else if message_includes e (str ''API key'')
                  \<or> message_includes e (str ''authentication'') then
            res_status_json 401
              (JObj [(str ''error'',
                        JStr (str ''Invalid Hugging Face API key. Please check your configuration.'')),
                     (str ''details'',
                        JStr (str ''Get your API key from https://huggingface.co/settings/tokens''))])
          else if message_includes e (str ''model'') \<and> message_includes e (str ''loading'') then
            res_status_json 503
              (JObj [(str ''error'',
                        JStr (str ''Model is loading. Please try again in a few moments.'')),
                     (str ''details'',
                        JStr (str ''Hugging Face models may take time to load on first request''))])
          else internal_error e
      | Ollama \<Rightarrow>
          if message_includes e (str ''connect ECONNREFUSED'') then
            res_status_json 503
              (JObj [(str ''error'',
                        JStr (str ''Ollama service is not running. Please start Ollama first.'')),
                     (str ''details'', JStr (str ''Run 'ollama serve' in your terminal''))])
          else if message_includes e (str ''model'') \<and> message_includes e (str ''not found'') then
            res_status_json 404
              (JObj [(str ''error'', JStr (str ''Model not found. Please pull the model first.'')),
                     (str ''details'', JStr (str ''Run 'ollama pull llama3.1' in your terminal''))])
          else internal_error e)"

definition bad_request :: response where
  "bad_request =
     res_status_json 400
       (JObj [(str ''error'', JStr (str ''Message query parameter is required''))])"

text \<open>
  The handler. \<open>q\<close> is \<^verbatim>\<open>req.query.message\<close>: \<open>None\<close> when the parameter is absent,
  otherwise its string value (a repeated or bracketed parameter, which Express parses
  into an array or object, is outside this model). \<^verbatim>\<open>!userQuery\<close> holds for the absent
  parameter and for the empty string only. \<open>chat_try\<close> is the \<^verbatim>\<open>try\<close> block: it ends
  with a response or with the value thrown by the first failing call, paired with the
  external calls made, in order. \<open>chat\<close> adds the \<^verbatim>\<open>catch\<close> block.
\<close>

definition chat_try ::
  "variant \<Rightarrow> env \<Rightarrow> externals \<Rightarrow> js_string option \<Rightarrow> (js_error + response) \<times> event list" where
  "chat_try v en ext q =
     (case q of
        None \<Rightarrow> (Inr bad_request, [])
      | Some userQuery \<Rightarrow>
          if userQuery = [] then (Inr bad_request, [])
          else
            let t1 = [NewEmbeddings (embeddings_cfg en)] in
            (case new_embeddings ext (embeddings_cfg en) of
               Inl e \<Rightarrow> (Inl e, t1)
             | Inr u1 \<Rightarrow>
                 let t2 = t1 @ [FromExistingCollection store_cfg] in
                 (case from_existing_collection ext store_cfg of
                    Inl e \<Rightarrow> (Inl e, t2)
                  | Inr u2 \<Rightarrow>
                      let t3 = t2 @ [RetrieverInvoke (retriever_k v en) userQuery] in
                      (case retriever_invoke ext (retriever_k v en) userQuery of
                         Inl e \<Rightarrow> (Inl e, t3)
                       | Inr relevantDocs \<Rightarrow>
                           let t4 = t3 @ [LlmInvoke (llm_input_of v userQuery relevantDocs)] in
                           (case llm_invoke ext (llm_input_of v userQuery relevantDocs) of
                              Inl e \<Rightarrow> (Inl e, t4)
                            | Inr reply \<Rightarrow>
                                (Inr (res_json
                                   (chat_success_body v (to_lower_case ext) reply relevantDocs)),
                                 t4))))))"

definition chat ::
  "variant \<Rightarrow> env \<Rightarrow> externals \<Rightarrow> js_string option \<Rightarrow> response \<times> event list" where
  "chat v en ext q =
     (case chat_try v en ext q of
        (Inl e, t) \<Rightarrow> (chat_catch v e, t)
      | (Inr r, t) \<Rightarrow> (r, t))"

section \<open>The worker\<close>

text \<open>
  The job handler of the worker on \<^verbatim>\<open>file-upload-queue\<close>. \<open>parsed\<close> is the outcome of
  \<^verbatim>\<open>JSON.parse(job.data)\<close>: the parsed value, or the error it throws.
\<close>

text \<open>Property access \<^verbatim>\<open>data.k\<close>: throws on \<^verbatim>\<open>null\<close>, is \<^verbatim>\<open>undefined\<close> on a missing key.\<close>

definition js_get :: "json \<Rightarrow> js_string \<Rightarrow> js_error + json option" where
  "js_get v k =
     (case v of
        JNull \<Rightarrow>
          Inl \<lparr>message = Some (str ''Cannot read properties of null (reading '' @ [0x27] @ k @
                               [0x27] @ str '')'')\<rparr>
      | JObj kvs \<Rightarrow> Inr (map_of kvs k)
      | _ \<Rightarrow> Inr None)"

text \<open>
  \<^verbatim>\<open>new CharacterTextSplitter({chunkSize: 1000, chunkOverlap: 200})\<close>. The splitter itself
  is LangChain's and enters through \<open>split_documents\<close>.
\<close>

definition text_splitter_params :: splitter_params where
  "text_splitter_params = \<lparr>chunkSize = 1000, chunkOverlap = 200\<rparr>"

definition optional_json_field :: "js_string \<Rightarrow> json option \<Rightarrow> (js_string \<times> json) list" where
  "optional_json_field k v = (case v of None \<Rightarrow> [] | Some j \<Rightarrow> [(k, j)])"

definition worker_result :: "json option \<Rightarrow> doc list \<Rightarrow> json" where
  "worker_result filename splitDocs =
     JObj ([(str ''success'', JBool True)] @
           optional_json_field (str ''filename'') filename @
           [(str ''chunks'', JNum (int (length splitDocs))),
            (str ''message'',
               JStr (str ''PDF successfully processed and stored in vector database''))])"

definition worker_try ::
  "env \<Rightarrow> externals \<Rightarrow> js_error + json \<Rightarrow> (js_error + json) \<times> event list" where
  "worker_try en ext parsed =
     (case parsed of
        Inl e \<Rightarrow> (Inl e, [])
      | Inr data \<Rightarrow>
          (case js_get data (str ''path'') of
             Inl e \<Rightarrow> (Inl e, [])
           | Inr p \<Rightarrow>
               let t1 = [LoaderLoad p] in
               (case loader_load ext p of
                  Inl e \<Rightarrow> (Inl e, t1)
                | Inr docs \<Rightarrow>
                    let t2 = t1 @ [SplitDocuments text_splitter_params docs] in
                    (case split_documents ext text_splitter_params docs of
                       Inl e \<Rightarrow> (Inl e, t2)
                     | Inr splitDocs \<Rightarrow>
                         let t3 = t2 @ [NewEmbeddings (embeddings_cfg en)] in
                         (case new_embeddings ext (embeddings_cfg en) of
                            Inl e \<Rightarrow> (Inl e, t3)
                          | Inr u1 \<Rightarrow>
                              let t4 = t3 @ [FromExistingCollection store_cfg] in
                              (case from_existing_collection ext store_cfg of
                                 Inl e \<Rightarrow> (Inl e, t4)
                               | Inr u2 \<Rightarrow>
                                   let t5 = t4 @ [AddDocuments splitDocs] in
                                   (case add_documents ext splitDocs of
                                      Inl e \<Rightarrow> (Inl e, t5)
                                    | Inr u3 \<Rightarrow>
                                        (case js_get data (str ''filename'') of
                                           Inl e \<Rightarrow> (Inl e, t5)
                                         | Inr fn \<Rightarrow>
                                             (Inr (worker_result fn splitDocs), t5)))))))))"

text \<open>
  The \<^verbatim>\<open>catch\<close> block rethrows. In its \<^verbatim>\<open>ENOENT\<close> branch the template literal reads
  \<^verbatim>\<open>data?.path\<close>, but \<^verbatim>\<open>data\<close> is declared with \<^verbatim>\<open>const\<close> inside the \<^verbatim>\<open>try\<close> block and is not
  in scope there, so evaluating it throws a \<^verbatim>\<open>ReferenceError\<close> instead.
\<close>

definition worker_catch :: "js_error \<Rightarrow> js_error" where
  "worker_catch e =
     (if message_includes e (str ''quota'') then
        \<lparr>message = Some (str ''Google API quota exceeded. Please try again later.'')\<rparr>
      else if message_includes e (str ''API key'') then
        \<lparr>message = Some (str ''Invalid Google API key. Please check your configuration.'')\<rparr>
      else if message_includes e (str ''ENOENT'') then
        \<lparr>message = Some (str ''data is not defined'')\<rparr>
      else
        \<lparr>message = Some (str ''Failed to process PDF: '' @
            (case message e of None \<Rightarrow> str ''undefined'' | Some m \<Rightarrow> m))\<rparr>)"

definition worker ::
  "env \<Rightarrow> externals \<Rightarrow> js_error + json \<Rightarrow> (js_error + json) \<times> event list" where
  "worker en ext parsed =
     (case worker_try en ext parsed of
        (Inl e, t) \<Rightarrow> (Inl (worker_catch e), t)
      | (Inr r, t) \<Rightarrow> (Inr r, t))"

section \<open>Concrete collaborators and inputs\<close>

text \<open>
  Collaborators that always succeed: the retriever returns \<open>docs\<close>, the generation backend
  replies \<open>reply\<close>, the loader returns \<open>pages\<close> and the splitter returns its input. Their
  \<^verbatim>\<open>toLowerCase\<close> is the ASCII one, which is the engine's on the ASCII replies used below.
\<close>

definition ok_externals :: "doc list \<Rightarrow> json \<Rightarrow> doc list \<Rightarrow> externals" where
  "ok_externals docs reply pages =
     \<lparr>new_embeddings = (\<lambda>c. Inr ()),
      from_existing_collection = (\<lambda>c. Inr ()),
      retriever_invoke = (\<lambda>k q. Inr docs),
      llm_invoke = (\<lambda>i. Inr reply),
      queue_add = (\<lambda>n j. Inr ()),
      loader_load = (\<lambda>p. Inr pages),
      split_documents = (\<lambda>ps ds. Inr ds),
      add_documents = (\<lambda>ds. Inr ()),
      to_lower_case = ascii_to_lower\<rparr>"

text \<open>The same, except that the generation backend and the queue throw \<open>e\<close>.\<close>

definition failing_externals :: "doc list \<Rightarrow> js_error \<Rightarrow> externals" where
  "failing_externals docs e =
     (ok_externals docs JNull [])\<lparr>llm_invoke := (\<lambda>i. Inl e), queue_add := (\<lambda>n j. Inl e)\<rparr>"

text \<open>
  The same as \<open>ok_externals\<close>, except that the retriever, which computes the embedding of
  the query, throws \<open>e\<close>.
\<close>

definition retriever_failing_externals :: "js_error \<Rightarrow> externals" where
  "retriever_failing_externals e =
     (ok_externals [] JNull [])\<lparr>retriever_invoke := (\<lambda>k q. Inl e)\<rparr>"

definition sample_doc :: doc where
  "sample_doc =
     \<lparr>pageContent = str ''Refunds are issued within 30 days.'',
      metadata = JObj [(str ''loc'', JObj [(str ''pageNumber'', JNum 2)])]\<rparr>"

text \<open>Field lookup in a JSON object (\<open>None\<close> for a missing key or a non-object).\<close>

definition field :: "json \<Rightarrow> js_string \<Rightarrow> json option" where
  "field j k = (case j of JObj kvs \<Rightarrow> map_of kvs k | _ \<Rightarrow> None)"

definition refund_query :: js_string where
  "refund_query = str ''What is the refund policy?''"

text \<open>A message that consists of one TAB.\<close>

definition tab_query :: js_string where
  "tab_query = [0x09]"


definition sample_file :: uploaded_file where
  "sample_file =
     \<lparr>originalname = str ''a.pdf'', destination = str ''uploads/'',
      path = str ''uploads/1-a.pdf''\<rparr>"

text \<open>An error of the kind Ollama reports for a model that has not been pulled.\<close>

definition model_not_found :: js_error where
  "model_not_found =
     \<lparr>message = Some (str ''model llama3.1 not found, try pulling it first'')\<rparr>"

text \<open>An error of the kind the Google embeddings client reports for a bad key.\<close>

definition api_key_invalid :: js_error where
  "api_key_invalid =
     \<lparr>message = Some (str ''API key not valid. Please pass a valid API key.'')\<rparr>"

definition quota_exceeded :: js_error where
  "quota_exceeded = \<lparr>message = Some (str ''You exceeded your current quota'')\<rparr>"

text \<open>An environment that asks for two chunks under several plausible option names.\<close>

definition k2_env :: env where
  "k2_env =
     [str ''RETRIEVAL_K'' \<mapsto> str ''2'', str ''TOP_K'' \<mapsto> str ''2'', str ''K'' \<mapsto> str ''2'']"

section \<open>Basic facts about the model\<close>

lemma str_eq_iff: "str a = str b \<longleftrightarrow> a = b"
  by (simp add: str_def inj_on_def)

lemma js_includes_sublist: "js_includes s sub \<longleftrightarrow> sublist sub s"
  by (induction s) (auto simp: sublist_Cons_right)

lemma trim_all_space:
  assumes "\<forall>c \<in> set s. is_space c"
  shows "trim s = []"
proof -
  from assms have empty: "dropWhile is_space s = []" by simp
  show ?thesis unfolding trim_def empty by simp
qed

lemma status_bad_request: "status bad_request = 400"
  by (simp add: bad_request_def res_status_json_def)

lemma status_chat_catch:
  "status (chat_catch Gemini e) =
     (if message_includes e (str ''quota'') then 429
      else if message_includes e (str ''API key'') then 401 else 500)"
  "status (chat_catch HuggingFace e) =
     (if message_includes e (str ''rate limit'') \<or> message_includes e (str ''quota'') then 429
      else if message_includes e (str ''API key'') \<or> message_includes e (str ''authentication'')
        then 401
      else if message_includes e (str ''model'') \<and> message_includes e (str ''loading'')
        then 503 else 500)"
  "status (chat_catch Ollama e) =
     (if message_includes e (str ''connect ECONNREFUSED'') then 503
      else if message_includes e (str ''model'') \<and> message_includes e (str ''not found'')
        then 404 else 500)"
  by (simp_all add: chat_catch_def res_status_json_def internal_error_def)

lemma chat_try_blank:
  "chat_try v en ext None = (Inr bad_request, [])"
  "chat_try v en ext (Some []) = (Inr bad_request, [])"
  by (simp_all add: chat_try_def)

text \<open>The run in which every collaborator answers.\<close>

lemma chat_try_success:
  assumes "q \<noteq> []"
    and "new_embeddings ext (embeddings_cfg en) = Inr ()"
    and "from_existing_collection ext store_cfg = Inr ()"
    and "retriever_invoke ext 3 q = Inr docs"
    and "llm_invoke ext (llm_input_of v q docs) = Inr reply"
  shows "chat_try v en ext (Some q) =
           (Inr (res_json (chat_success_body v (to_lower_case ext) reply docs)),
            [NewEmbeddings (embeddings_cfg en), FromExistingCollection store_cfg,
             RetrieverInvoke 3 q, LlmInvoke (llm_input_of v q docs)])"
  using assms by (simp add: chat_try_def retriever_k_def)

text \<open>
  The runs in which a collaborator throws: the first throw ends the \<^verbatim>\<open>try\<close> block with
  the thrown value, and no later call is made.
\<close>

lemma chat_try_failure:
  assumes "q \<noteq> []"
  shows "new_embeddings ext (embeddings_cfg en) = Inl e \<Longrightarrow>
           chat_try v en ext (Some q) = (Inl e, [NewEmbeddings (embeddings_cfg en)])"
    and "new_embeddings ext (embeddings_cfg en) = Inr () \<Longrightarrow>
         from_existing_collection ext store_cfg = Inl e \<Longrightarrow>
           chat_try v en ext (Some q) =
             (Inl e, [NewEmbeddings (embeddings_cfg en), FromExistingCollection store_cfg])"
    and "new_embeddings ext (embeddings_cfg en) = Inr () \<Longrightarrow>
         from_existing_collection ext store_cfg = Inr () \<Longrightarrow>
         retriever_invoke ext 3 q = Inl e \<Longrightarrow>
           chat_try v en ext (Some q) =
             (Inl e, [NewEmbeddings (embeddings_cfg en), FromExistingCollection store_cfg,
                      RetrieverInvoke 3 q])"
    and "new_embeddings ext (embeddings_cfg en) = Inr () \<Longrightarrow>
         from_existing_collection ext store_cfg = Inr () \<Longrightarrow>
         retriever_invoke ext 3 q = Inr docs \<Longrightarrow>
         llm_invoke ext (llm_input_of v q docs) = Inl e \<Longrightarrow>
           chat_try v en ext (Some q) =
             (Inl e, [NewEmbeddings (embeddings_cfg en), FromExistingCollection store_cfg,
                      RetrieverInvoke 3 q, LlmInvoke (llm_input_of v q docs)])"
  using assms by (simp_all add: chat_try_def retriever_k_def)

lemma chat_try_trace_nonblank:
  "q \<noteq> [] \<Longrightarrow> \<exists>t. snd (chat_try v en ext (Some q)) = NewEmbeddings (embeddings_cfg en) # t"
  by (simp add: chat_try_def Let_def split: sum.splits)

lemma snd_chat: "snd (chat v en ext q) = snd (chat_try v en ext q)"
  by (simp add: chat_def split: prod.splits sum.splits)

text \<open>Status 400 is the answer to the absent and to the empty parameter, and to nothing else.\<close>

lemma chat_status_400_iff:
  "status (fst (chat v en ext q)) = 400 \<longleftrightarrow> q = None \<or> q = Some []"
proof (cases "q = None \<or> q = Some []")
  case True
  then show ?thesis
    by (auto simp: chat_def chat_try_blank status_bad_request)
next
  case False
  then obtain s where q: "q = Some s" and s: "s \<noteq> []" by (cases q) auto
  have "status (fst (chat v en ext (Some s))) \<noteq> 400"
    using s
    by (cases v)
      (auto simp: chat_def chat_try_def Let_def retriever_k_def res_json_def status_chat_catch
        split: sum.splits)
  with q False show ?thesis by simp
qed

lemma refund_query_nonempty: "refund_query \<noteq> []"
  by (simp add: refund_query_def str_def)


text \<open>The model on small inputs: the context block, the echo stripping, a missing file.\<close>

lemma context_of_two_docs:
  "context_of [d1, d2] =
     str ''Document 1:'' @ NL @ pageContent d1 @ NL @ NL @ str ''---'' @ NL @ NL @
     str ''Document 2:'' @ NL @ pageContent d2"
  by (simp add: context_of_def doc_label_def context_sep_def str_def
      string_of_nat.simps [of "Suc 0"] string_of_nat.simps [of "Suc (Suc 0)"])

lemma clean_response_example:
  "clean_response ascii_to_lower (JStr (str ''Question: x Answer: foo ANSWER:  bar  '')) =
     JStr (str ''bar'')"
  by (simp add: clean_response_def ascii_to_lower_def trim_def is_space_def str_def)

lemma clean_response_no_marker:
  "clean_response ascii_to_lower (JStr (str ''Within 30 days.'')) = JStr (str ''Within 30 days.'')"
  by (simp add: clean_response_def ascii_to_lower_def str_def)

text \<open>
  The index is taken in the lower-cased string and applied to the reply itself. With a
  \<^verbatim>\<open>toLowerCase\<close> that lengthens what precedes the marker by one code unit, as the engine's
  does for U+0130, the cut falls one code unit late.
\<close>

lemma clean_response_index_shift:
  "clean_response (\<lambda>s. if s = [0x130] @ str ''answer:ok'' then [0x69, 0x307] @ str ''answer:ok''
                        else s)
     (JStr ([0x130] @ str ''answer:ok'')) = JStr (str ''k'')"
  by (simp add: clean_response_def trim_def is_space_def str_def)

text \<open>\<^verbatim>\<open>trim\<close> removes a NO-BREAK SPACE as it removes a SPACE.\<close>

lemma trim_no_break_space: "trim ([0xA0] @ str ''ok'' @ [0xA0, 0x20]) = str ''ok''"
  by (simp add: trim_def is_space_def str_def)

lemma worker_missing_file:
  "worker Map.empty
     ((ok_externals [] JNull [])\<lparr>loader_load :=
        (\<lambda>p. Inl \<lparr>message = Some (str ''ENOENT: no such file or directory'')\<rparr>)\<rparr>)
     (Inr (upload_job sample_file)) =
   (Inl \<lparr>message = Some (str ''data is not defined'')\<rparr>,
    [LoaderLoad (Some (JStr (str ''uploads/1-a.pdf'')))])"
  by (simp add: worker_def worker_try_def worker_catch_def message_includes_def js_get_def
      upload_job_def sample_file_def ok_externals_def str_def)

section \<open>GET /chat: the blank-query guard\<close>

text \<open>
  Claim C4. A request whose \<^verbatim>\<open>message\<close> parameter is absent or is the empty string is
  answered with status 400 and an \<^verbatim>\<open>error\<close> body, and no external call is made: the list
  of recorded calls is empty, so there is no embedding, no vector-index query and no
  generation call. This holds in all three servers and for any collaborators.
\<close>

theorem chat_blank_query_rejected:
  "chat v en ext None =
     (\<lparr>status = 400,
       body = JObj [(str ''error'', JStr (str ''Message query parameter is required''))]\<rparr>, [])
   \<and> chat v en ext (Some []) =
     (\<lparr>status = 400,
       body = JObj [(str ''error'', JStr (str ''Message query parameter is required''))]\<rparr>, [])"
  by (simp add: chat_def chat_try_blank bad_request_def res_status_json_def)

text \<open>
  The guard tests \<^verbatim>\<open>!userQuery\<close> and does not trim. A non-empty message made of white
  space only, which \<open>trim\<close> would reduce to the empty string, is not answered with 400 in
  any server: the handler goes on to its external calls, and when they all answer, the
  message is given to the retriever as it is, \<^verbatim>\<open>llm.invoke\<close> is called with the input the
  server builds, and the answer has status 200.
\<close>

lemma whitespace_query_not_rejected:
  assumes "q \<noteq> []" and "\<forall>c \<in> set q. is_space c"
  shows "trim q = []
    \<and> status (fst (chat v en ext (Some q))) \<noteq> 400
    \<and> (\<exists>t. snd (chat v en ext (Some q)) = NewEmbeddings (embeddings_cfg en) # t)
    \<and> (new_embeddings ext (embeddings_cfg en) = Inr () \<and>
       from_existing_collection ext store_cfg = Inr () \<and>
       retriever_invoke ext 3 q = Inr docs \<and>
       llm_invoke ext (llm_input_of v q docs) = Inr reply \<longrightarrow>
       chat v en ext (Some q) =
         (\<lparr>status = 200, body = chat_success_body v (to_lower_case ext) reply docs\<rparr>,
          [NewEmbeddings (embeddings_cfg en), FromExistingCollection store_cfg,
           RetrieverInvoke 3 q, LlmInvoke (llm_input_of v q docs)]))"
proof (intro conjI impI)
  show "trim q = []"
    using assms(2) by (rule trim_all_space)
  show "status (fst (chat v en ext (Some q))) \<noteq> 400"
    using assms(1) by (simp add: chat_status_400_iff)
  show "\<exists>t. snd (chat v en ext (Some q)) = NewEmbeddings (embeddings_cfg en) # t"
    using assms(1) by (simp add: snd_chat chat_try_trace_nonblank)
next
  assume "new_embeddings ext (embeddings_cfg en) = Inr () \<and>
       from_existing_collection ext store_cfg = Inr () \<and>
       retriever_invoke ext 3 q = Inr docs \<and>
       llm_invoke ext (llm_input_of v q docs) = Inr reply"
  then show "chat v en ext (Some q) =
         (\<lparr>status = 200, body = chat_success_body v (to_lower_case ext) reply docs\<rparr>,
          [NewEmbeddings (embeddings_cfg en), FromExistingCollection store_cfg,
           RetrieverInvoke 3 q, LlmInvoke (llm_input_of v q docs)])"
    using assms(1) by (simp add: chat_def chat_try_success res_json_def)
qed

text \<open>
  Claim C10. A message of white space only is treated as non-blank and fully processed:
  embedded, used to query the vector index, and forwarded to the generation backend. The
  Ollama server breaks the last part. For a message that is one TAB it answers 200 and
  queries the retriever with the TAB, but what it hands to \<^verbatim>\<open>llm.invoke\<close> is the system
  prompt with the retrieved chunk, and the message is not in it. (The Gemini and Hugging
  Face servers hand the message over, see \<open>gemini_llm_input_has_context_and_query\<close> and
  \<open>hf_llm_input_has_context_and_query\<close>.)
\<close>

theorem ollama_whitespace_query_not_forwarded:
  "tab_query \<noteq> [] \<and> list_all is_space tab_query
   \<and> chat Ollama Map.empty (ok_externals [sample_doc] (JStr (str ''ok'')) []) (Some tab_query) =
       (\<lparr>status = 200,
         body =
           JObj [(str ''message'', JStr (str ''ok'')), (str ''sources'', JNum 1),
                 (str ''model'', JStr (str ''llama3.1'')),
                 (str ''docs'',
                    JArr [JObj [(str ''pageContent'',
                                   JStr (str ''Refunds are issued within 30 days.'')),
                                (str ''metadata'',
                                   JObj [(str ''loc'', JObj [(str ''pageNumber'', JNum 2)])])]])]\<rparr>,
        [NewEmbeddings (embeddings_cfg Map.empty), FromExistingCollection store_cfg,
         RetrieverInvoke 3 tab_query,
         LlmInvoke
          (Prompt
            (str ''You are a helpful AI assistant that answers questions based on PDF document content.'' @ NL @
             str ''Instructions:'' @ NL @
             str ''- Answer the user's question using ONLY the provided context from the PDF documents'' @ NL @
             str ''- If the answer is not in the context, clearly state that the information is not available in the provided documents'' @ NL @
             str ''- Be concise but comprehensive in your responses'' @ NL @
             str ''- Maintain a professional and helpful tone'' @ NL @
             NL @
             str ''Context from PDF documents:'' @ NL @
             str ''Document 1:'' @ NL @
             str ''Refunds are issued within 30 days.''))])
   \<and> \<not> js_includes
         (str ''You are a helpful AI assistant that answers questions based on PDF document content.'' @ NL @
          str ''Instructions:'' @ NL @
          str ''- Answer the user's question using ONLY the provided context from the PDF documents'' @ NL @
          str ''- If the answer is not in the context, clearly state that the information is not available in the provided documents'' @ NL @
          str ''- Be concise but comprehensive in your responses'' @ NL @
          str ''- Maintain a professional and helpful tone'' @ NL @
          NL @
          str ''Context from PDF documents:'' @ NL @
          str ''Document 1:'' @ NL @
          str ''Refunds are issued within 30 days.'')
         tab_query"
  by (simp add: chat_def chat_try_def ok_externals_def retriever_k_def llm_input_of_def
      ollama_system_prompt_def context_of_def doc_label_def sample_doc_def tab_query_def
      context_sep_def string_of_nat.simps [of "Suc 0"] str_def chat_success_body_def
      res_json_def model_name_def doc_json_def is_space_def)

section \<open>GET /chat: the answer when every collaborator answers\<close>

text \<open>
  The \<^verbatim>\<open>docs\<close> field of the success body: the Hugging Face and Ollama servers send the
  retrieved chunks, each with its \<^verbatim>\<open>pageContent\<close> and its metadata as the vector store gave
  it; the Gemini server sends no such field.
\<close>

lemma success_body_docs:
  "field (chat_success_body Gemini lower reply docs) (str ''docs'') = None"
  "field (chat_success_body HuggingFace lower reply docs) (str ''docs'') =
     Some (JArr (map doc_json docs))"
  "field (chat_success_body Ollama lower reply docs) (str ''docs'') =
     Some (JArr (map doc_json docs))"
  by (simp_all add: chat_success_body_def field_def str_def)

text \<open>
  Claim C1. A successful request is answered with status 200 and a body with \<^verbatim>\<open>message\<close>
  and a \<^verbatim>\<open>docs\<close> array of the retrieved chunks. \<^verbatim>\<open>server/index.js\<close> does not do this: for
  the request below, with one chunk retrieved and a reply from the backend, its body is
  \<^verbatim>\<open>{message, sources, model}\<close> and has no \<^verbatim>\<open>docs\<close> field. (The other two servers send it,
  see \<open>success_body_docs\<close>.)
\<close>

theorem gemini_chat_body_without_docs:
  "fst (chat Gemini Map.empty (ok_externals [sample_doc] (JStr (str ''Within 30 days.'')) [])
          (Some refund_query)) =
     \<lparr>status = 200,
      body = JObj [(str ''message'', JStr (str ''Within 30 days.'')), (str ''sources'', JNum 1),
                   (str ''model'', JStr (str ''gemini-1.5-flash''))]\<rparr>
   \<and> field (body (fst (chat Gemini Map.empty
          (ok_externals [sample_doc] (JStr (str ''Within 30 days.'')) []) (Some refund_query))))
        (str ''docs'') = None"
  by (simp add: chat_def chat_try_def ok_externals_def chat_success_body_def res_json_def
      model_name_def field_def refund_query_def str_def)





section \<open>GET /chat: what the generation backend is given\<close>

lemma sublist_append_left: "sublist x ys \<Longrightarrow> sublist x (zs @ ys)"
proof -
  assume "sublist x ys"
  then obtain ps ss where "ys = ps @ x @ ss" by (auto simp: sublist_def)
  then have "zs @ ys = (zs @ ps) @ x @ ss" by simp
  then show ?thesis unfolding sublist_def by blast
qed

lemma sublist_js_join: "x \<in> set xs \<Longrightarrow> sublist x (js_join sep xs)"
proof (induction sep xs rule: js_join.induct)
  case (1 sep)
  then show ?case by simp
next
  case (2 sep x')
  then show ?case by simp
next
  case (3 sep a b ys)
  show ?case
  proof (cases "x = a")
    case True
    then show ?thesis by simp
  next
    case False
    with 3 have "sublist x (js_join sep (b # ys))" by simp
    then have "sublist x ((a @ sep) @ js_join sep (b # ys))"
      by (rule sublist_append_left)
    then show ?thesis by simp
  qed
qed

text \<open>
  The context block holds every retrieved chunk under its 1-based ordinal: the chunk at
  index \<open>i\<close> appears as \<^verbatim>\<open>Document <i+1>:\<close>, a line break, and its text.
\<close>

lemma context_of_labels:
  assumes "i < length docs"
  shows "js_includes (context_of docs)
           (str ''Document '' @ string_of_nat (i + 1) @ str '':'' @ NL @ pageContent (docs ! i))"
proof -
  from assms have "(i, docs ! i) \<in> set (enumerate 0 docs)"
    by (simp add: in_set_enumerate_eq)
  then have "doc_label (i, docs ! i) \<in> set (map doc_label (enumerate 0 docs))"
    by force
  then have "sublist (doc_label (i, docs ! i)) (context_of docs)"
    unfolding context_of_def by (rule sublist_js_join)
  then show ?thesis by (simp add: js_includes_sublist doc_label_def)
qed

lemma gemini_prompt_has_context: "js_includes (gemini_system_prompt ctx) ctx"
  unfolding js_includes_sublist gemini_system_prompt_def
  by (rule sublist_order.order_refl | rule sublist_append_left)+

lemma hf_prompt_has_context: "js_includes (hf_prompt ctx q) ctx"
  unfolding js_includes_sublist hf_prompt_def
  by (rule sublist_append_rightI | rule sublist_append_left)+

lemma hf_prompt_has_query: "js_includes (hf_prompt ctx q) q"
  unfolding js_includes_sublist hf_prompt_def
  by (rule sublist_append_rightI | rule sublist_append_left)+

lemma ollama_prompt_has_context: "js_includes (ollama_system_prompt ctx) ctx"
  unfolding js_includes_sublist ollama_system_prompt_def
  by (rule sublist_order.order_refl | rule sublist_append_left)+

text \<open>
  The Gemini server hands over the context block (in the system message) and the query (as
  the user message); the Hugging Face server hands over one prompt holding both.
\<close>

lemma gemini_llm_input_has_context_and_query:
  "\<exists>p. llm_input_of Gemini q docs = Messages [(str ''system'', p), (str ''user'', q)]
       \<and> js_includes p (context_of docs)"
  by (simp add: llm_input_of_def gemini_prompt_has_context)

lemma hf_llm_input_has_context_and_query:
  "\<exists>p. llm_input_of HuggingFace q docs = Prompt p
       \<and> js_includes p (context_of docs) \<and> js_includes p q"
  by (simp add: llm_input_of_def hf_prompt_has_context hf_prompt_has_query)

text \<open>
  The Ollama server hands over the system prompt alone. What it gives the backend does not
  depend on the query at all.
\<close>

lemma ollama_llm_input_ignores_query:
  "llm_input_of Ollama q docs = llm_input_of Ollama q' docs"
  by (simp add: llm_input_of_def)

lemma ollama_llm_input_has_context:
  "\<exists>p. llm_input_of Ollama q docs = Prompt p \<and> js_includes p (context_of docs)"
  by (simp add: llm_input_of_def ollama_prompt_has_context)

text \<open>
  Claim C2. In every server the text handed to the generation backend holds the context
  block and the user's query. The Ollama server breaks this: it calls
  \<^verbatim>\<open>llm.invoke(systemPrompt)\<close>, and the system prompt is built from the context only. For
  the request below the backend receives the prompt with the labelled chunk, and the
  question is nowhere in it.
\<close>

theorem ollama_llm_input_omits_query:
  "snd (chat Ollama Map.empty (ok_externals [sample_doc] (JStr (str ''ok'')) [])
          (Some refund_query)) =
     [NewEmbeddings (embeddings_cfg Map.empty), FromExistingCollection store_cfg,
      RetrieverInvoke 3 refund_query,
      LlmInvoke (Prompt (ollama_system_prompt (context_of [sample_doc])))]
   \<and> \<not> js_includes (ollama_system_prompt (context_of [sample_doc])) refund_query"
  by (simp add: chat_def chat_try_def ok_externals_def retriever_k_def llm_input_of_def
      ollama_system_prompt_def context_of_def doc_label_def sample_doc_def refund_query_def
      context_sep_def string_of_nat.simps [of "Suc 0"] str_def)

section \<open>GET /chat: the error mapping\<close>

text \<open>
  Claim C3, as stated: a failure inside the handler is answered with a status from
  429, 401, 503 and 500 only, 401 being the answer to API-key errors. The Ollama server
  answers 404 when the error message mentions a model that is not found; and when the
  embedding of the query, which all three servers compute with the Google key, fails
  with an API-key error, the Ollama server answers 500, not 401.
\<close>

theorem chat_failure_status_counterexample:
  "status (fst (chat Ollama Map.empty (failing_externals [] model_not_found) (Some refund_query)))
     \<notin> {429, 401, 503, 500}
   \<and> message_includes api_key_invalid (str ''API key'')
   \<and> status (fst (chat Ollama Map.empty (retriever_failing_externals api_key_invalid)
        (Some refund_query))) = 500"
  by (simp add: chat_def chat_try_def failing_externals_def retriever_failing_externals_def
      ok_externals_def status_chat_catch message_includes_def model_not_found_def
      api_key_invalid_def refund_query_def str_def)

text \<open>Whichever call throws first, the answer is the one the \<^verbatim>\<open>catch\<close> block builds.\<close>

lemma chat_failure_response:
  assumes "q \<noteq> []"
    and "new_embeddings ext (embeddings_cfg en) = Inl e
      \<or> new_embeddings ext (embeddings_cfg en) = Inr ()
         \<and> from_existing_collection ext store_cfg = Inl e
      \<or> new_embeddings ext (embeddings_cfg en) = Inr ()
         \<and> from_existing_collection ext store_cfg = Inr ()
         \<and> retriever_invoke ext 3 q = Inl e
      \<or> new_embeddings ext (embeddings_cfg en) = Inr ()
         \<and> from_existing_collection ext store_cfg = Inr ()
         \<and> retriever_invoke ext 3 q = Inr docs
         \<and> llm_invoke ext (llm_input_of v q docs) = Inl e"
  shows "fst (chat v en ext (Some q)) = chat_catch v e"
  using assms(2)
  by (elim disjE conjE) (simp_all add: chat_def chat_try_failure [OF assms(1)])

text \<open>
  Claim C3, amended. Whenever one of the calls inside the handler throws (creating the
  embeddings client, opening the collection, the retriever with its embedding of the
  query, or the generation backend), the handler answers with a status from 429, 401, 503,
  404 and 500 and never with another. 429 is given only to an error whose message has
  \<^verbatim>\<open>quota\<close> or \<^verbatim>\<open>rate limit\<close>, 401 only to one with \<^verbatim>\<open>API key\<close> or \<^verbatim>\<open>authentication\<close>, 503 only
  to one with \<^verbatim>\<open>connect ECONNREFUSED\<close> or with \<^verbatim>\<open>model\<close> and \<^verbatim>\<open>loading\<close>, 404 only by the Ollama
  server to one with \<^verbatim>\<open>model\<close> and \<^verbatim>\<open>not found\<close>; an error with none of these marks gets 500.
  Where a server tests for a class it answers with that class's status: \<^verbatim>\<open>quota\<close> gives
  429 in the Gemini and Hugging Face servers and \<^verbatim>\<open>rate limit\<close> in the Hugging Face server;
  \<^verbatim>\<open>API key\<close> gives 401 in these two servers and \<^verbatim>\<open>authentication\<close> in the Hugging Face
  server, when the message has no rate-limit mark; \<^verbatim>\<open>model\<close> with \<^verbatim>\<open>loading\<close> gives 503 in the
  Hugging Face server when it has no rate-limit or key mark; \<^verbatim>\<open>connect ECONNREFUSED\<close> gives
  503 and otherwise \<^verbatim>\<open>model\<close> with \<^verbatim>\<open>not found\<close> gives 404 in the Ollama server. What a
  server answers to an error of a class it does not test for is left open.
\<close>

theorem chat_failure_status:
  assumes "q \<noteq> []"
    and "new_embeddings ext (embeddings_cfg en) = Inl e
      \<or> new_embeddings ext (embeddings_cfg en) = Inr ()
         \<and> from_existing_collection ext store_cfg = Inl e
      \<or> new_embeddings ext (embeddings_cfg en) = Inr ()
         \<and> from_existing_collection ext store_cfg = Inr ()
         \<and> retriever_invoke ext 3 q = Inl e
      \<or> new_embeddings ext (embeddings_cfg en) = Inr ()
         \<and> from_existing_collection ext store_cfg = Inr ()
         \<and> retriever_invoke ext 3 q = Inr docs
         \<and> llm_invoke ext (llm_input_of v q docs) = Inl e"
  shows "status (fst (chat v en ext (Some q))) \<in> {429, 401, 503, 404, 500}
    \<and> (status (fst (chat v en ext (Some q))) = 429 \<longrightarrow>
         message_includes e (str ''quota'') \<or> message_includes e (str ''rate limit''))
    \<and> (status (fst (chat v en ext (Some q))) = 401 \<longrightarrow>
         message_includes e (str ''API key'') \<or> message_includes e (str ''authentication''))
    \<and> (status (fst (chat v en ext (Some q))) = 503 \<longrightarrow>
         message_includes e (str ''connect ECONNREFUSED'')
         \<or> message_includes e (str ''model'') \<and> message_includes e (str ''loading''))
    \<and> (status (fst (chat v en ext (Some q))) = 404 \<longrightarrow>
         v = Ollama \<and> message_includes e (str ''model'') \<and> message_includes e (str ''not found''))
    \<and> (\<not> message_includes e (str ''quota'') \<and> \<not> message_includes e (str ''rate limit'')
        \<and> \<not> message_includes e (str ''API key'') \<and> \<not> message_includes e (str ''authentication'')
        \<and> \<not> message_includes e (str ''connect ECONNREFUSED'')
        \<and> \<not> message_includes e (str ''model'') \<longrightarrow>
         status (fst (chat v en ext (Some q))) = 500)
    \<and> (v \<noteq> Ollama \<and> message_includes e (str ''quota'') \<longrightarrow>
         status (fst (chat v en ext (Some q))) = 429)
    \<and> (v = HuggingFace \<and> message_includes e (str ''rate limit'') \<longrightarrow>
         status (fst (chat v en ext (Some q))) = 429)
    \<and> (v \<noteq> Ollama \<and> message_includes e (str ''API key'')
        \<and> \<not> message_includes e (str ''quota'') \<and> \<not> message_includes e (str ''rate limit'') \<longrightarrow>
         status (fst (chat v en ext (Some q))) = 401)
    \<and> (v = HuggingFace \<and> message_includes e (str ''authentication'')
        \<and> \<not> message_includes e (str ''quota'') \<and> \<not> message_includes e (str ''rate limit'') \<longrightarrow>
         status (fst (chat v en ext (Some q))) = 401)
    \<and> (v = HuggingFace \<and> message_includes e (str ''model'') \<and> message_includes e (str ''loading'')
        \<and> \<not> message_includes e (str ''quota'') \<and> \<not> message_includes e (str ''rate limit'')
        \<and> \<not> message_includes e (str ''API key'') \<and> \<not> message_includes e (str ''authentication'') \<longrightarrow>
         status (fst (chat v en ext (Some q))) = 503)
    \<and> (v = Ollama \<and> message_includes e (str ''connect ECONNREFUSED'') \<longrightarrow>
         status (fst (chat v en ext (Some q))) = 503)
    \<and> (v = Ollama \<and> message_includes e (str ''model'') \<and> message_includes e (str ''not found'')
        \<and> \<not> message_includes e (str ''connect ECONNREFUSED'') \<longrightarrow>
         status (fst (chat v en ext (Some q))) = 404)"
proof -
  have caught: "fst (chat v en ext (Some q)) = chat_catch v e"
    using assms by (rule chat_failure_response)
  show ?thesis
    unfolding caught by (cases v) (simp_all add: status_chat_catch)
qed

theorem chat_failure_status_witness:
  "status (fst (chat Ollama Map.empty (failing_externals [] model_not_found)
        (Some refund_query))) = 404
   \<and> status (fst (chat HuggingFace Map.empty (retriever_failing_externals quota_exceeded)
        (Some refund_query))) = 429
   \<and> status (fst (chat Gemini Map.empty (retriever_failing_externals api_key_invalid)
        (Some refund_query))) = 401"
proof -
  have m: "message_includes model_not_found (str ''model'')"
    "message_includes model_not_found (str ''not found'')"
    "\<not> message_includes model_not_found (str ''connect ECONNREFUSED'')"
    "message_includes quota_exceeded (str ''quota'')"
    "message_includes api_key_invalid (str ''API key'')"
    "\<not> message_includes api_key_invalid (str ''quota'')"
    "\<not> message_includes api_key_invalid (str ''rate limit'')"
    by (simp_all add: message_includes_def model_not_found_def quota_exceeded_def
        api_key_invalid_def str_def)
  have "status (fst (chat Ollama Map.empty (failing_externals [] model_not_found)
        (Some refund_query))) = 404"
    using chat_failure_status [of refund_query "failing_externals [] model_not_found" Map.empty
        model_not_found "[]" Ollama] m
    by (simp add: failing_externals_def ok_externals_def refund_query_nonempty)
  moreover have "status (fst (chat HuggingFace Map.empty
        (retriever_failing_externals quota_exceeded) (Some refund_query))) = 429"
    using chat_failure_status [of refund_query "retriever_failing_externals quota_exceeded"
        Map.empty quota_exceeded "[]" HuggingFace] m
    by (simp add: retriever_failing_externals_def ok_externals_def refund_query_nonempty)
  moreover have "status (fst (chat Gemini Map.empty
        (retriever_failing_externals api_key_invalid) (Some refund_query))) = 401"
    using chat_failure_status [of refund_query "retriever_failing_externals api_key_invalid"
        Map.empty api_key_invalid "[]" Gemini] m
    by (simp add: retriever_failing_externals_def ok_externals_def refund_query_nonempty)
  ultimately show ?thesis by simp
qed

section \<open>GET /chat: how many chunks are asked for\<close>

lemma chat_try_retriever_event:
  "RetrieverInvoke k s \<in> set (snd (chat_try v en ext q)) \<Longrightarrow> k = 3 \<and> q = Some s"
  by (auto simp: chat_try_def Let_def retriever_k_def split: option.splits if_splits sum.splits)

text \<open>
  Claim C8, as stated: the number of chunks asked for is 2 or 3 and can be set through the
  environment. With the environment asking for 2, the server still asks the retriever
  for 3 and never for 2.
\<close>

theorem retriever_k_environment_counterexample:
  "RetrieverInvoke 2 refund_query \<notin>
     set (snd (chat Gemini k2_env (ok_externals [sample_doc] (JStr (str ''ok'')) [])
       (Some refund_query)))
   \<and> RetrieverInvoke 3 refund_query \<in>
     set (snd (chat Gemini k2_env (ok_externals [sample_doc] (JStr (str ''ok'')) [])
       (Some refund_query)))"
  by (simp add: chat_def chat_try_def ok_externals_def retriever_k_def refund_query_nonempty)

text \<open>
  Claim C8, amended. Every query to the retriever asks for the 3 most similar chunks, with
  the request's message as the query text, in each server and whatever the environment
  holds: 3 is a literal of the source, not a configuration option.
\<close>

theorem chat_retrieves_top_3:
  assumes "RetrieverInvoke k s \<in> set (snd (chat v en ext q))"
  shows "k = 3 \<and> q = Some s \<and> retriever_k v en = 3"
  using assms by (auto simp: snd_chat retriever_k_def dest: chat_try_retriever_event)

theorem chat_retrieves_top_3_witness:
  "RetrieverInvoke 3 refund_query \<in>
     set (snd (chat Ollama k2_env (ok_externals [sample_doc] (JStr (str ''ok'')) [])
       (Some refund_query)))
   \<and> retriever_k Ollama k2_env = 3"
proof -
  have ev: "RetrieverInvoke 3 refund_query \<in>
     set (snd (chat Ollama k2_env (ok_externals [sample_doc] (JStr (str ''ok'')) [])
       (Some refund_query)))"
    by (simp add: chat_def chat_try_def ok_externals_def retriever_k_def refund_query_nonempty)
  with chat_retrieves_top_3 [OF ev] show ?thesis by simp
qed

section \<open>POST /upload/pdf\<close>

text \<open>
  Claim C9, as stated: a successful enqueue is answered with status 200 and the body
  \<^verbatim>\<open>{message: "uploaded"}\<close>. The status is 200, the message text is another.
\<close>

theorem upload_pdf_message_counterexample:
  "status (fst (upload_pdf (ok_externals [] JNull []) (Some sample_file))) = 200
   \<and> body (fst (upload_pdf (ok_externals [] JNull []) (Some sample_file))) =
       JObj [(str ''message'', JStr (str ''PDF uploaded successfully''))]
   \<and> body (fst (upload_pdf (ok_externals [] JNull []) (Some sample_file))) \<noteq>
       JObj [(str ''message'', JStr (str ''uploaded''))]"
  by (simp add: upload_pdf_def ok_externals_def res_json_def str_eq_iff)

text \<open>
  Claim C9, amended. When the enqueue succeeds the answer is status 200 with body
  \<^verbatim>\<open>{message: "PDF uploaded successfully"}\<close>; when the enqueue throws it is status 500 with
  body \<^verbatim>\<open>{error: "Failed to upload file"}\<close>; in both cases exactly one job, carrying the
  file's name, destination and path, was handed to the queue. A request without a file is
  answered with the same 500 and nothing is enqueued.
\<close>

theorem upload_pdf_responses:
  "(queue_add ext (str ''file-ready'') (upload_job f) = Inr () \<longrightarrow>
      upload_pdf ext (Some f) =
        (\<lparr>status = 200,
          body = JObj [(str ''message'', JStr (str ''PDF uploaded successfully''))]\<rparr>,
         [QueueAdd (str ''file-ready'') (upload_job f)]))
   \<and> (queue_add ext' (str ''file-ready'') (upload_job f) = Inl e \<longrightarrow>
      upload_pdf ext' (Some f) =
        (\<lparr>status = 500, body = JObj [(str ''error'', JStr (str ''Failed to upload file''))]\<rparr>,
         [QueueAdd (str ''file-ready'') (upload_job f)]))
   \<and> upload_pdf ext None =
        (\<lparr>status = 500, body = JObj [(str ''error'', JStr (str ''Failed to upload file''))]\<rparr>,
         [])"
  by (simp add: upload_pdf_def upload_failed_def res_json_def res_status_json_def)

theorem upload_pdf_responses_witness:
  "upload_pdf (ok_externals [] JNull []) (Some sample_file) =
     (\<lparr>status = 200,
       body = JObj [(str ''message'', JStr (str ''PDF uploaded successfully''))]\<rparr>,
      [QueueAdd (str ''file-ready'') (upload_job sample_file)])
   \<and> upload_pdf (failing_externals [] \<lparr>message = Some (str ''connect ECONNREFUSED 127.0.0.1:6379'')\<rparr>)
        (Some sample_file) =
     (\<lparr>status = 500, body = JObj [(str ''error'', JStr (str ''Failed to upload file''))]\<rparr>,
      [QueueAdd (str ''file-ready'') (upload_job sample_file)])"
  using upload_pdf_responses [of "ok_externals [] JNull []" sample_file
      "failing_externals [] \<lparr>message = Some (str ''connect ECONNREFUSED 127.0.0.1:6379'')\<rparr>"
      "\<lparr>message = Some (str ''connect ECONNREFUSED 127.0.0.1:6379'')\<rparr>"]
  by (simp add: ok_externals_def failing_externals_def)

section \<open>The worker: chunking parameters\<close>

lemma snd_worker: "snd (worker en ext parsed) = snd (worker_try en ext parsed)"
  by (simp add: worker_def split: prod.splits sum.splits)

lemma worker_try_split_event:
  "SplitDocuments ps ds \<in> set (snd (worker_try en ext parsed)) \<Longrightarrow>
     ps = text_splitter_params
     \<and> (\<exists>data p. parsed = Inr data \<and> js_get data (str ''path'') = Inr p
          \<and> loader_load ext p = Inr ds)"
  by (auto simp: worker_try_def Let_def split: sum.splits)

lemma worker_try_add_event:
  "AddDocuments chunks \<in> set (snd (worker_try en ext parsed)) \<Longrightarrow>
     \<exists>ds. SplitDocuments text_splitter_params ds \<in> set (snd (worker_try en ext parsed))
        \<and> split_documents ext text_splitter_params ds = Inr chunks"
  by (auto simp: worker_try_def Let_def split: sum.splits)

lemma worker_try_loaded:
  "parsed = Inr data \<Longrightarrow> js_get data (str ''path'') = Inr p \<Longrightarrow> loader_load ext p = Inr ds \<Longrightarrow>
     SplitDocuments text_splitter_params ds \<in> set (snd (worker_try en ext parsed))"
  by (auto simp: worker_try_def Let_def split: sum.splits)

text \<open>
  Claim C6. The worker splits what it loaded with chunk size 1000 and chunk overlap 200:
  every call of the splitter carries these two parameters and is applied to the pages the
  loader returned for the job's path; whenever the load succeeds such a call is made; and
  what is added to the vector store is what that call returned.
\<close>

theorem worker_splits_with_1000_200:
  "(SplitDocuments ps ds \<in> set (snd (worker en ext parsed)) \<longrightarrow>
      chunkSize ps = 1000 \<and> chunkOverlap ps = 200
      \<and> (\<exists>data p. parsed = Inr data \<and> js_get data (str ''path'') = Inr p
           \<and> loader_load ext p = Inr ds))
   \<and> (parsed = Inr data \<and> js_get data (str ''path'') = Inr p \<and> loader_load ext p = Inr pages \<longrightarrow>
      SplitDocuments \<lparr>chunkSize = 1000, chunkOverlap = 200\<rparr> pages
        \<in> set (snd (worker en ext parsed)))
   \<and> (AddDocuments chunks \<in> set (snd (worker en ext parsed)) \<longrightarrow>
      (\<exists>loaded. SplitDocuments \<lparr>chunkSize = 1000, chunkOverlap = 200\<rparr> loaded
           \<in> set (snd (worker en ext parsed))
         \<and> split_documents ext \<lparr>chunkSize = 1000, chunkOverlap = 200\<rparr> loaded = Inr chunks))"
proof (intro conjI impI)
  assume ev: "SplitDocuments ps ds \<in> set (snd (worker en ext parsed))"
  from worker_try_split_event [OF ev [unfolded snd_worker]]
  show "chunkSize ps = 1000" and "chunkOverlap ps = 200"
    and "\<exists>data p. parsed = Inr data \<and> js_get data (str ''path'') = Inr p
          \<and> loader_load ext p = Inr ds"
    by (simp_all add: text_splitter_params_def)
next
  assume "parsed = Inr data \<and> js_get data (str ''path'') = Inr p \<and> loader_load ext p = Inr pages"
  then show "SplitDocuments \<lparr>chunkSize = 1000, chunkOverlap = 200\<rparr> pages
        \<in> set (snd (worker en ext parsed))"
    using worker_try_loaded [of parsed data p ext pages en]
    by (simp add: snd_worker text_splitter_params_def)
next
  assume "AddDocuments chunks \<in> set (snd (worker en ext parsed))"
  then show "\<exists>loaded. SplitDocuments \<lparr>chunkSize = 1000, chunkOverlap = 200\<rparr> loaded
           \<in> set (snd (worker en ext parsed))
         \<and> split_documents ext \<lparr>chunkSize = 1000, chunkOverlap = 200\<rparr> loaded = Inr chunks"
    using worker_try_add_event [of chunks en ext parsed]
    by (simp add: snd_worker text_splitter_params_def)
qed

theorem worker_splits_with_1000_200_witness:
  "SplitDocuments \<lparr>chunkSize = 1000, chunkOverlap = 200\<rparr> [sample_doc]
     \<in> set (snd (worker Map.empty (ok_externals [] JNull [sample_doc])
          (Inr (upload_job sample_file))))
   \<and> AddDocuments [sample_doc]
     \<in> set (snd (worker Map.empty (ok_externals [] JNull [sample_doc])
          (Inr (upload_job sample_file))))
   \<and> js_get (upload_job sample_file) (str ''path'') = Inr (Some (JStr (str ''uploads/1-a.pdf'')))"
proof -
  have path: "js_get (upload_job sample_file) (str ''path'') =
      Inr (Some (JStr (str ''uploads/1-a.pdf'')))"
    by (simp add: js_get_def upload_job_def sample_file_def str_def)
  have load: "loader_load (ok_externals [] JNull [sample_doc])
      (Some (JStr (str ''uploads/1-a.pdf''))) = Inr [sample_doc]"
    by (simp add: ok_externals_def)
  have add: "AddDocuments [sample_doc]
     \<in> set (snd (worker Map.empty (ok_externals [] JNull [sample_doc])
          (Inr (upload_job sample_file))))"
    by (simp add: snd_worker worker_try_def path ok_externals_def js_get_def upload_job_def
        str_def)
  from worker_splits_with_1000_200 [of _ _ Map.empty "ok_externals [] JNull [sample_doc]"
      "Inr (upload_job sample_file)" "upload_job sample_file"
      "Some (JStr (str ''uploads/1-a.pdf''))" "[sample_doc]" "[sample_doc]"] path load add
  show ?thesis by simp
qed

end
